theory Spec2Isabelle
  imports Complex_Main
begin

section \<open>Room Scan TSDF worker: a shallow embedding of \<^verbatim>\<open>worker/app.py\<close>\<close>

text \<open>
  The service keeps one \<^verbatim>\<open>TSDFSession\<close> per token in a process-wide dictionary and
  exposes \<^verbatim>\<open>init_session\<close>, \<^verbatim>\<open>ingest_chunk\<close> and \<^verbatim>\<open>finalize\<close>. The handlers are
  modelled as functions on an explicit world (the session dictionary and a trace of the
  effects the handlers perform: log records, lock operations, mesh extraction and writes).
  What the file system, PIL, numpy's \<^verbatim>\<open>linalg.inv\<close> and Open3D answer is not code of
  this file; it is handed to the model as data (\<open>chunk\<close>, \<open>frame_files\<close>) and as a record
  of functions (\<open>externals\<close>). Python floats are idealised as rationals.
\<close>

subsection \<open>Python errors, results, the effect trace\<close>

datatype py_error =
    KeyError string
  | IndexError
  | ZeroDivisionError
  | AttributeError
  | LinAlgError
  | DecodeError
  | OSError
  | RuntimeError

datatype http_error = HTTPException (status_code: nat) (detail: string)

datatype level = INFO | WARNING | ERROR

datatype lock_id = SessionsLock | SessionLock string

datatype event =
    Log level string
  | Acquire lock_id
  | Release lock_id
  | ExtractMesh string
  | MakeDirs string
  | WriteMesh string

text \<open>Sequencing of steps that may raise: the first exception ends the computation.\<close>

definition bind_result :: "'err + 'a \<Rightarrow> ('a \<Rightarrow> 'err + 'b) \<Rightarrow> 'err + 'b" where
  "bind_result step rest = (case step of Inr v \<Rightarrow> rest v | Inl err \<Rightarrow> Inl err)"

subsection \<open>JSON numbers and numpy arrays\<close>

text \<open>
  \<^verbatim>\<open>json.load\<close> yields a Python \<^verbatim>\<open>int\<close> for a literal without fraction or exponent and
  a \<^verbatim>\<open>float\<close> otherwise. \<^verbatim>\<open>np.array\<close> of a nested list of numbers has dtype
  \<^verbatim>\<open>int64\<close> when every entry is an \<^verbatim>\<open>int\<close> and \<^verbatim>\<open>float64\<close> as soon as one entry is a
  \<^verbatim>\<open>float\<close>.
\<close>

datatype jnum = JInt int | JFloat rat

fun is_int :: "jnum \<Rightarrow> bool" where
  "is_int (JInt i) = True"
| "is_int (JFloat q) = False"

fun int_of :: "jnum \<Rightarrow> int" where
  "int_of (JInt i) = i"
| "int_of (JFloat q) = \<lfloor>q\<rfloor>"

fun float_of :: "jnum \<Rightarrow> rat" where
  "float_of (JInt i) = of_int i"
| "float_of (JFloat q) = q"

type_synonym jmatrix = "jnum list list"

datatype ndarray = IntArray "int list list" | FloatArray "rat list list"

definition np_array :: "jmatrix \<Rightarrow> ndarray" where
  "np_array rows =
     (if list_all (list_all is_int) rows then IntArray (map (map int_of) rows)
      else FloatArray (map (map float_of) rows))"

text \<open>\<^verbatim>\<open>K[i, j]\<close>: a numpy scalar of the array's dtype; out of range raises IndexError.\<close>

definition in_range :: "'a list list \<Rightarrow> nat \<Rightarrow> nat \<Rightarrow> bool" where
  "in_range rows i j = (i < length rows \<and> j < length (rows ! i))"

fun getitem :: "ndarray \<Rightarrow> nat \<Rightarrow> nat \<Rightarrow> py_error + jnum" where
  "getitem (IntArray rows) i j =
     (if in_range rows i j then Inr (JInt (rows ! i ! j)) else Inl IndexError)"
| "getitem (FloatArray rows) i j =
     (if in_range rows i j then Inr (JFloat (rows ! i ! j)) else Inl IndexError)"

text \<open>
  The C cast numpy applies when a float is stored into an \<^verbatim>\<open>int64\<close> array: the
  fraction is dropped (rounding toward zero).
\<close>

definition trunc_toward_zero :: "rat \<Rightarrow> int" where
  "trunc_toward_zero q = (if 0 \<le> q then \<lfloor>q\<rfloor> else \<lceil>q\<rceil>)"

text \<open>
  \<^verbatim>\<open>K[i, j] *= s\<close> with a Python float \<open>s\<close>: Python reads the element, multiplies
  (the product is a \<^verbatim>\<open>float64\<close>), and stores it back with \<^verbatim>\<open>K.__setitem__\<close>, which
  casts the product to the array's dtype.
\<close>

fun imul_item :: "ndarray \<Rightarrow> nat \<Rightarrow> nat \<Rightarrow> rat \<Rightarrow> py_error + ndarray" where
  "imul_item (IntArray rows) i j s =
     (if in_range rows i j
      then Inr (IntArray (rows[i := (rows ! i)[j := trunc_toward_zero (of_int (rows ! i ! j) * s)]]))
      else Inl IndexError)"
| "imul_item (FloatArray rows) i j s =
     (if in_range rows i j
      then Inr (FloatArray (rows[i := (rows ! i)[j := rows ! i ! j * s]]))
      else Inl IndexError)"

text \<open>\<^verbatim>\<open>a / b\<close> on two Python ints: true division, ZeroDivisionError on \<open>b = 0\<close>.\<close>

definition true_div :: "int \<Rightarrow> int \<Rightarrow> py_error + rat" where
  "true_div a b = (if b = 0 then Inl ZeroDivisionError else Inr (of_int a / of_int b))"

subsection \<open>Frame metadata and the camera intrinsic\<close>

text \<open>The keys of a frame's \<^verbatim>\<open>meta/<id>.json\<close> that the worker reads; \<open>None\<close>: key absent.\<close>

record meta =
  depthSize :: "(int \<times> int) option"
  colorSize :: "(int \<times> int) option"
  K_depth :: "jmatrix option"
  K_color :: "jmatrix option"
  T_wc :: "jmatrix option"
  depthScale :: "jnum option"

text \<open>\<^verbatim>\<open>o3d.camera.PinholeCameraIntrinsic(width, height, fx, fy, cx, cy)\<close>.\<close>

record intrinsic =
  width :: int
  height :: int
  fx :: rat
  fy :: rat
  cx :: rat
  cy :: rat

definition lookup_key :: "string \<Rightarrow> 'a option \<Rightarrow> py_error + 'a" where
  "lookup_key k v = (case v of None \<Rightarrow> Inl (KeyError k) | Some x \<Rightarrow> Inr x)"

text \<open>Lines 143-151: read \<open>fx, fy, cx, cy\<close> off \<open>K\<close> and build the intrinsic.\<close>

definition pinhole :: "int \<Rightarrow> int \<Rightarrow> ndarray \<Rightarrow> py_error + intrinsic" where
  "pinhole w h K =
     bind_result (getitem K 0 0) (\<lambda>kfx.
     bind_result (getitem K 1 1) (\<lambda>kfy.
     bind_result (getitem K 0 2) (\<lambda>kcx.
     bind_result (getitem K 1 2) (\<lambda>kcy.
       Inr \<lparr>width = w, height = h, fx = float_of kfx, fy = float_of kfy,
            cx = float_of kcx, cy = float_of kcy\<rparr>))))"

text \<open>Lines 130-138: the fallback, \<open>K_color\<close> scaled to the depth resolution.\<close>

definition scale_K_color :: "meta \<Rightarrow> int \<Rightarrow> int \<Rightarrow> py_error + ndarray" where
  "scale_K_color m w h =
     bind_result (lookup_key ''K_color'' (K_color m)) (\<lambda>kc.
     bind_result (lookup_key ''colorSize'' (colorSize m)) (\<lambda>(color_w, color_h).
     bind_result (true_div w color_w) (\<lambda>scale_x.
     bind_result (true_div h color_h) (\<lambda>scale_y.
     bind_result (imul_item (np_array kc) 0 0 scale_x) (\<lambda>K1.
     bind_result (imul_item K1 1 1 scale_y) (\<lambda>K2.
     bind_result (imul_item K2 0 2 scale_x) (\<lambda>K3.
       imul_item K3 1 2 scale_y)))))))"

definition create_intrinsic_from_meta :: "meta \<Rightarrow> bool \<Rightarrow> py_error + intrinsic" where
  "create_intrinsic_from_meta m use_depth_size =
     (case (if use_depth_size then depthSize m else None) of
        Some (w, h) \<Rightarrow>
          (case K_depth m of
             Some kd \<Rightarrow> pinhole w h (np_array kd)
           | None \<Rightarrow> bind_result (scale_K_color m w h) (pinhole w h))
      | None \<Rightarrow>
          bind_result (lookup_key ''colorSize'' (colorSize m)) (\<lambda>(w, h).
          bind_result (lookup_key ''K_color'' (K_color m)) (\<lambda>kc.
            pinhole w h (np_array kc))))"

subsection \<open>External collaborators\<close>

text \<open>
  Pixel buffers, the RGBD image, the extrinsic and the mesh are values of PIL, numpy and
  Open3D. The TSDF volume is Open3D's; what the worker can observe of it is the
  parameters it was constructed with and the frames it has been given, so the volume is
  modelled as those parameters and the list of the integrated frames, in order.
\<close>

type_synonym image = "nat list"
type_synonym rgbd_image = "image \<times> image"
type_synonym matrix = "rat list list"

datatype color_type = NoColor | RGB8 | Gray32

record tsdf_volume_state =
  vol_voxel_length :: rat
  vol_sdf_trunc :: rat
  vol_color_type :: color_type
  volume_unit_resolution :: int
  depth_sampling_stride :: int
  integrated :: "(rgbd_image \<times> intrinsic \<times> matrix) list"

record mesh =
  vertices :: "(rat \<times> rat \<times> rat) list"
  triangles :: "(nat \<times> nat \<times> nat) list"

text \<open>
  The library calls whose answer the worker depends on. \<open>None\<close> stands for a raised
  exception; \<open>integrate_ok\<close> is False where \<^verbatim>\<open>tsdf_volume.integrate\<close> raises.
  \<open>extract_triangle_mesh\<close> covers \<^verbatim>\<open>extract_triangle_mesh()\<close> followed by
  \<^verbatim>\<open>compute_vertex_normals()\<close>; \<open>write_triangle_mesh\<close> returns Open3D's success flag.
\<close>

record externals =
  linalg_inv :: "ndarray \<Rightarrow> matrix option"
  create_from_color_and_depth :: "image \<Rightarrow> image \<Rightarrow> rgbd_image option"
  integrate_ok :: "tsdf_volume_state \<Rightarrow> rgbd_image \<Rightarrow> intrinsic \<Rightarrow> matrix \<Rightarrow> bool"
  extract_triangle_mesh :: "tsdf_volume_state \<Rightarrow> mesh option"
  mkdir_ok :: "string \<Rightarrow> bool"
  write_triangle_mesh :: "string \<Rightarrow> mesh \<Rightarrow> bool option"

text \<open>
  What the chunk directory holds for one frame id: whether the three files exist, and
  what the loaders return for them (\<open>None\<close>: the loader raises). \<open>depth_png s\<close> is the
  depth buffer the worker hands to Open3D when the depth scale is \<open>s\<close>: the PNG decoded,
  divided by \<open>s\<close>, multiplied by 1000 and cast back to 16 bits.
\<close>

record frame_files =
  rgb_exists :: bool
  depth_exists :: bool
  meta_exists :: bool
  meta_json :: "meta option"
  depth_png :: "jnum \<Rightarrow> image option"
  color_jpg :: "image option"

text \<open>
  \<^verbatim>\<open>index.json\<close>: a list of frame ids, or a dict whose \<^verbatim>\<open>frames\<close> key (when present)
  holds the list; any other JSON value has no \<^verbatim>\<open>get\<close>.
\<close>

datatype index_data = IndexList "string list" | IndexDict "string list option" | IndexOther

datatype index_file = IndexMissing | IndexUnparsable | IndexParsed index_data

record chunk =
  chunkPath :: string
  chunk_exists :: bool
  index_json :: index_file
  files :: "string \<Rightarrow> frame_files"

subsection \<open>Sessions and the registry\<close>

record tsdf_session =
  token :: string
  tsdf_volume :: "tsdf_volume_state option"
  voxel_length :: rat
  sdf_trunc :: rat
  color_type :: color_type
  frame_count :: int
  chunk_count :: int

record world =
  sessions :: "string \<rightharpoonup> tsdf_session"
  trace :: "event list"

definition emit :: "event list \<Rightarrow> world \<Rightarrow> world" where
  "emit evs w = w\<lparr>trace := trace w @ evs\<rparr>"

text \<open>\<^verbatim>\<open>TSDFSession.__init__\<close>.\<close>

definition new_session :: "string \<Rightarrow> tsdf_session" where
  "new_session tok =
     \<lparr>token = tok, tsdf_volume = None, voxel_length = 2 / 100, sdf_trunc = 8 / 100,
      color_type = RGB8, frame_count = 0, chunk_count = 0\<rparr>"

text \<open>\<^verbatim>\<open>TSDFSession.initialize_tsdf\<close>: a fresh volume replaces whatever was there.\<close>

definition initialize_tsdf :: "tsdf_session \<Rightarrow> tsdf_session \<times> event list" where
  "initialize_tsdf s =
     (s\<lparr>tsdf_volume := Some \<lparr>vol_voxel_length = voxel_length s, vol_sdf_trunc = sdf_trunc s,
                             vol_color_type = color_type s, volume_unit_resolution = 16,
                             depth_sampling_stride = 1, integrated = []\<rparr>\<rparr>,
      [Log INFO ''TSDF volume initialized''])"

text \<open>
  \<^verbatim>\<open>TSDFSession.integrate_frame\<close>. The volume is created before \<^verbatim>\<open>integrate\<close> is
  called, so it stays created when \<^verbatim>\<open>integrate\<close> raises; \<open>frame_count\<close> advances only
  after \<^verbatim>\<open>integrate\<close> has returned.
\<close>

definition integrate_frame ::
  "externals \<Rightarrow> tsdf_session \<Rightarrow> rgbd_image \<Rightarrow> intrinsic \<Rightarrow> matrix
     \<Rightarrow> (py_error + unit) \<times> tsdf_session \<times> event list" where
  "integrate_frame ext s rgbd intr extrinsic =
     (case (if tsdf_volume s = None then initialize_tsdf s else (s, [])) of (s1, ev) \<Rightarrow>
        (case tsdf_volume s1 of
           None \<Rightarrow> (Inl AttributeError, s1, ev)
         | Some v \<Rightarrow>
             (if integrate_ok ext v rgbd intr extrinsic
              then (Inr (),
                    s1\<lparr>tsdf_volume := Some (v\<lparr>integrated := integrated v @ [(rgbd, intr, extrinsic)]\<rparr>),
                       frame_count := frame_count s1 + 1\<rparr>,
                    ev)
              else (Inl RuntimeError, s1, ev))))"

text \<open>\<^verbatim>\<open>get_session\<close>: get or create, under the registry's lock.\<close>

definition get_session :: "string \<Rightarrow> world \<Rightarrow> tsdf_session \<times> world" where
  "get_session tok w =
     (case sessions w tok of
        None \<Rightarrow>
          (new_session tok,
           w\<lparr>sessions := (sessions w)(tok \<mapsto> new_session tok),
             trace := trace w @ [Acquire SessionsLock, Log INFO ''Created new session for token'',
                                 Release SessionsLock]\<rparr>)
      | Some s \<Rightarrow> (s, emit [Acquire SessionsLock, Release SessionsLock] w))"

subsection \<open>One frame\<close>

text \<open>A computation that may raise and that writes log records on the way.\<close>

type_synonym 'a logged = "(py_error + 'a) \<times> event list"

definition bind_logged :: "'a logged \<Rightarrow> ('a \<Rightarrow> 'b logged) \<Rightarrow> 'b logged" where
  "bind_logged m f =
     (case m of
        (Inl e, ev) \<Rightarrow> (Inl e, ev)
      | (Inr x, ev) \<Rightarrow> (case f x of (r, ev') \<Rightarrow> (r, ev @ ev')))"

definition quiet :: "py_error + 'a \<Rightarrow> 'a logged" where
  "quiet r = (r, [])"

text \<open>The three loaders log an error and re-raise.\<close>

definition load_meta_json :: "frame_files \<Rightarrow> meta logged" where
  "load_meta_json f =
     (case meta_json f of
        None \<Rightarrow> (Inl DecodeError, [Log ERROR ''Failed to load meta JSON''])
      | Some m \<Rightarrow> (Inr m, []))"

definition load_depth_image :: "frame_files \<Rightarrow> jnum \<Rightarrow> image logged" where
  "load_depth_image f depth_scale =
     (case depth_png f depth_scale of
        None \<Rightarrow> (Inl DecodeError, [Log ERROR ''Failed to load depth image''])
      | Some d \<Rightarrow> (Inr d, []))"

definition load_color_image :: "frame_files \<Rightarrow> image logged" where
  "load_color_image f =
     (case color_jpg f of
        None \<Rightarrow> (Inl DecodeError, [Log ERROR ''Failed to load color image''])
      | Some c \<Rightarrow> (Inr c, []))"

text \<open>\<^verbatim>\<open>get_world_to_camera_transform\<close>: \<^verbatim>\<open>np.linalg.inv\<close> of the pose.\<close>

definition get_world_to_camera_transform :: "externals \<Rightarrow> ndarray \<Rightarrow> py_error + matrix" where
  "get_world_to_camera_transform ext T_wc_json =
     (case linalg_inv ext T_wc_json of None \<Rightarrow> Inl LinAlgError | Some T_cw \<Rightarrow> Inr T_cw)"

text \<open>Lines 249-274 of the loop body: everything up to the call of \<^verbatim>\<open>integrate_frame\<close>.\<close>

definition prepare_frame ::
  "externals \<Rightarrow> frame_files \<Rightarrow> (rgbd_image \<times> intrinsic \<times> matrix) logged" where
  "prepare_frame ext f =
     bind_logged (load_meta_json f) (\<lambda>m.
     bind_logged (load_depth_image f (case depthScale m of None \<Rightarrow> JFloat 1000 | Some ds \<Rightarrow> ds))
       (\<lambda>depth_o3d.
     bind_logged (load_color_image f) (\<lambda>color_o3d.
     bind_logged (quiet (case create_from_color_and_depth ext color_o3d depth_o3d of
                            None \<Rightarrow> Inl RuntimeError | Some r \<Rightarrow> Inr r)) (\<lambda>rgbd.
     bind_logged (quiet (create_intrinsic_from_meta m True)) (\<lambda>intr.
     bind_logged (quiet (lookup_key ''T_wc'' (T_wc m))) (\<lambda>t.
     bind_logged (quiet (get_world_to_camera_transform ext (np_array t))) (\<lambda>T_cw.
       (Inr (rgbd, intr, T_cw), []))))))))"

text \<open>
  The loop body, lines 229-283: True when the frame was integrated
  (\<^verbatim>\<open>frames_processed += 1\<close>), False when it was counted as failed.
\<close>

definition process_frame ::
  "externals \<Rightarrow> frame_files \<Rightarrow> tsdf_session \<Rightarrow> bool \<times> tsdf_session \<times> event list" where
  "process_frame ext f s =
     (if \<not> rgb_exists f then (False, s, [Log WARNING ''Missing RGB''])
      else if \<not> depth_exists f then (False, s, [Log WARNING ''Missing depth''])
      else if \<not> meta_exists f then (False, s, [Log WARNING ''Missing meta''])
      else
        (case prepare_frame ext f of
           (Inl e, ev) \<Rightarrow> (False, s, ev @ [Log ERROR ''Error processing frame''])
         | (Inr (rgbd, intr, T_cw), ev) \<Rightarrow>
             (case integrate_frame ext s rgbd intr T_cw of
                (Inl e, s', ev') \<Rightarrow> (False, s', ev @ ev' @ [Log ERROR ''Error processing frame''])
              | (Inr u, s', ev') \<Rightarrow> (True, s', ev @ ev'))))"

text \<open>
  The \<^verbatim>\<open>for frame_id in frame_ids\<close> loop, with its two counters, the session and the
  effects so far.
\<close>

fun process_frames ::
  "externals \<Rightarrow> (string \<Rightarrow> frame_files) \<Rightarrow> string list
     \<Rightarrow> int \<times> int \<times> tsdf_session \<times> event list \<Rightarrow> int \<times> int \<times> tsdf_session \<times> event list" where
  "process_frames ext fs [] acc = acc"
| "process_frames ext fs (frame_id # rest) (frames_processed, frames_failed, s, evs) =
     (case process_frame ext (fs frame_id) s of
        (ok, s', ev) \<Rightarrow>
          process_frames ext fs rest
            (if ok then frames_processed + 1 else frames_processed,
             if ok then frames_failed else frames_failed + 1,
             s', evs @ ev))"

subsection \<open>Mesh extraction and the handlers\<close>

datatype jval = JStr string | JNum int

type_synonym response = "(string \<times> jval) list"

definition output_dir :: "string \<Rightarrow> string" where
  "output_dir tok = ''laptop/server/data/'' @ tok @ ''/mesh''"

definition output_path :: "string \<Rightarrow> string" where
  "output_path tok = output_dir tok @ ''/latest.ply''"

text \<open>
  The statements both \<^verbatim>\<open>ingest_chunk\<close> (lines 290-298) and \<^verbatim>\<open>finalize\<close> (lines
  330-339) run: extract the mesh from the session's volume, create the directory, write
  \<^verbatim>\<open>latest.ply\<close>. The result is the mesh and the flag \<^verbatim>\<open>write_triangle_mesh\<close> returned.
\<close>

definition extract_and_write ::
  "externals \<Rightarrow> string \<Rightarrow> tsdf_volume_state option \<Rightarrow> (mesh \<times> bool) logged" where
  "extract_and_write ext tok vol =
     (case vol of
        None \<Rightarrow> (Inl AttributeError, [])
      | Some v \<Rightarrow>
          (case extract_triangle_mesh ext v of
             None \<Rightarrow> (Inl RuntimeError, [ExtractMesh tok])
           | Some m \<Rightarrow>
               (if \<not> mkdir_ok ext (output_dir tok)
                then (Inl OSError, [ExtractMesh tok, MakeDirs (output_dir tok)])
                else
                  (case write_triangle_mesh ext (output_path tok) m of
                     None \<Rightarrow>
                       (Inl RuntimeError,
                        [ExtractMesh tok, MakeDirs (output_dir tok), WriteMesh (output_path tok)])
                   | Some success \<Rightarrow>
                       (Inr (m, success),
                        [ExtractMesh tok, MakeDirs (output_dir tok), WriteMesh (output_path tok)])))))"

text \<open>Lines 288-301: the preview after a chunk, every exception caught and logged.\<close>

definition preview :: "externals \<Rightarrow> string \<Rightarrow> tsdf_session \<Rightarrow> event list" where
  "preview ext tok s =
     (case extract_and_write ext tok (tsdf_volume s) of
        (Inl e, ev) \<Rightarrow> ev @ [Log WARNING ''Failed to extract mesh after chunk'']
      | (Inr r, ev) \<Rightarrow> ev @ [Log INFO ''Updated latest.ply after chunk''])"

definition init_session :: "string \<Rightarrow> world \<Rightarrow> (http_error + response) \<times> world" where
  "init_session tok w =
     (case get_session tok w of (s, w1) \<Rightarrow>
        (case (if tsdf_volume s = None then initialize_tsdf s
               else (s, [Log INFO ''Session already initialized''])) of
           (s', ev) \<Rightarrow>
             (Inr [(''status'', JStr ''ok''), (''token'', JStr tok),
                   (''message'', JStr ''Session initialized'')],
              w1\<lparr>sessions := (sessions w1)(tok \<mapsto> s'),
                 trace := trace w1 @ [Acquire (SessionLock tok)] @ ev @ [Release (SessionLock tok)]\<rparr>)))"

text \<open>Lines 212-215: the frame ids of the index.\<close>

fun frame_ids_of :: "index_data \<Rightarrow> py_error + string list" where
  "frame_ids_of (IndexList ids) = Inr ids"
| "frame_ids_of (IndexDict None) = Inr []"
| "frame_ids_of (IndexDict (Some ids)) = Inr ids"
| "frame_ids_of IndexOther = Inl AttributeError"

text \<open>
  The outer \<^verbatim>\<open>except Exception\<close>: the error is logged and answered with status 500. The
  detail of the response is the text of the Python exception, which is not tracked here.
\<close>

definition internal_error :: "string \<Rightarrow> world \<Rightarrow> (http_error + response) \<times> world" where
  "internal_error msg w = (Inl (HTTPException 500 msg), emit [Log ERROR msg] w)"

definition ingest_chunk ::
  "externals \<Rightarrow> chunk \<Rightarrow> string \<Rightarrow> world \<Rightarrow> (http_error + response) \<times> world" where
  "ingest_chunk ext ch tok w =
     (if \<not> chunk_exists ch
      then (Inl (HTTPException 404 (''Chunk path does not exist: '' @ chunkPath ch)), w)
      else
        (case get_session tok w of (s, w1) \<Rightarrow>
           (case index_json ch of
              IndexMissing \<Rightarrow> (Inl (HTTPException 400 ''index.json not found in chunk''), w1)
            | IndexUnparsable \<Rightarrow> internal_error ''Error ingesting chunk'' w1
            | IndexParsed index_data \<Rightarrow>
                (case frame_ids_of index_data of
                   Inl e \<Rightarrow> internal_error ''Error ingesting chunk'' w1
                 | Inr frame_ids \<Rightarrow>
                     (if frame_ids = []
                      then (Inr [(''status'', JStr ''ok''), (''frames_processed'', JNum 0),
                                 (''message'', JStr ''No frames to process'')],
                            emit [Log WARNING ''No frames in chunk index''] w1)
                      else
                        (case process_frames ext (files ch) frame_ids (0, 0, s, []) of
                           (frames_processed, frames_failed, s1, evs) \<Rightarrow>
                             (case s1\<lparr>chunk_count := chunk_count s1 + 1\<rparr> of s2 \<Rightarrow>
                                (Inr [(''status'', JStr ''ok''), (''token'', JStr tok),
                                      (''frames_processed'', JNum frames_processed),
                                      (''frames_failed'', JNum frames_failed),
                                      (''total_frames'', JNum (frame_count s2))],
                                 w1\<lparr>sessions := (sessions w1)(tok \<mapsto> s2),
                                    trace := trace w1
                                      @ [Log INFO ''Processing chunk'', Acquire (SessionLock tok)]
                                      @ evs @ [Log INFO ''Chunk processed'']
                                      @ preview ext tok s2
                                      @ [Release (SessionLock tok)]\<rparr>))))))))"

definition finalize :: "externals \<Rightarrow> string \<Rightarrow> world \<Rightarrow> (http_error + response) \<times> world" where
  "finalize ext tok w =
     (case get_session tok w of (s, w1) \<Rightarrow>
        (if tsdf_volume s = None
         then (Inl (HTTPException 400 ''TSDF volume not initialized. Process chunks first.''),
               emit [Acquire (SessionLock tok), Release (SessionLock tok)] w1)
         else
           (case extract_and_write ext tok (tsdf_volume s) of
              (Inl e, ev) \<Rightarrow>
                (Inl (HTTPException 500 ''Error finalizing mesh''),
                 emit ([Acquire (SessionLock tok), Log INFO ''Finalizing mesh extraction''] @ ev
                       @ [Release (SessionLock tok), Log ERROR ''Error finalizing mesh'']) w1)
            | (Inr (m, success), ev) \<Rightarrow>
                (if \<not> success
                 then (Inl (HTTPException 500 ''Failed to write PLY file''),
                       emit ([Acquire (SessionLock tok), Log INFO ''Finalizing mesh extraction''] @ ev
                             @ [Release (SessionLock tok)]) w1)
                 else
                   (Inr [(''status'', JStr ''ok''), (''token'', JStr tok),
                         (''mesh_path'', JStr (output_path tok)),
                         (''vertices'', JNum (int (length (vertices m)))),
                         (''triangles'', JNum (int (length (triangles m)))),
                         (''total_frames'', JNum (frame_count s))],
                    emit ([Acquire (SessionLock tok), Log INFO ''Finalizing mesh extraction''] @ ev
                          @ [Log INFO ''Mesh finalized'', Release (SessionLock tok)]) w1)))))"

subsection \<open>Routing\<close>

text \<open>The three POST routes, and a sequence of requests served one after the other.\<close>

datatype request = InitSession string | IngestChunk chunk string | Finalize string

fun handle :: "externals \<Rightarrow> request \<Rightarrow> world \<Rightarrow> (http_error + response) \<times> world" where
  "handle ext (InitSession tok) w = init_session tok w"
| "handle ext (IngestChunk ch tok) w = ingest_chunk ext ch tok w"
| "handle ext (Finalize tok) w = finalize ext tok w"

fun serve :: "externals \<Rightarrow> request list \<Rightarrow> world \<Rightarrow> world" where
  "serve ext [] w = w"
| "serve ext (r # rs) w = serve ext rs (snd (handle ext r w))"

subsection \<open>What a caller can observe\<close>

text \<open>
  The session a handler works on for a token: the registered one, or the fresh one
  \<open>get_session\<close> creates.
\<close>

definition session_of :: "world \<Rightarrow> string \<Rightarrow> tsdf_session" where
  "session_of w tok = (case sessions w tok of None \<Rightarrow> new_session tok | Some s \<Rightarrow> s)"

text \<open>The effects a call added to the trace.\<close>

definition new_events :: "world \<Rightarrow> world \<Rightarrow> event list" where
  "new_events w w' = drop (length (trace w)) (trace w')"

text \<open>The frames a session's volume has integrated (none while there is no volume).\<close>

definition integrated_frames :: "tsdf_session \<Rightarrow> (rgbd_image \<times> intrinsic \<times> matrix) list" where
  "integrated_frames s = (case tsdf_volume s of None \<Rightarrow> [] | Some v \<Rightarrow> integrated v)"

text \<open>\<^verbatim>\<open>response.get(k)\<close> on the JSON body of an answer.\<close>

definition response_field :: "http_error + response \<Rightarrow> string \<Rightarrow> jval option" where
  "response_field r k = (case r of Inl e \<Rightarrow> None | Inr d \<Rightarrow> map_of d k)"

text \<open>
  Two sets of collaborators that agree on everything frame integration calls; they may
  differ in mesh extraction, directory creation and mesh writing.
\<close>

definition same_fusion :: "externals \<Rightarrow> externals \<Rightarrow> bool" where
  "same_fusion ext ext' =
     (linalg_inv ext' = linalg_inv ext
      \<and> create_from_color_and_depth ext' = create_from_color_and_depth ext
      \<and> integrate_ok ext' = integrate_ok ext)"

subsection \<open>Example inputs\<close>

text \<open>
  A frame whose metadata has a depth size and a float-valued color intrinsic but no depth
  intrinsic, the same metadata with an all-integer color intrinsic, and with an explicit
  depth intrinsic.
\<close>

definition identity_pose :: jmatrix where
  "identity_pose =
     [[JFloat 1, JFloat 0, JFloat 0, JFloat 0], [JFloat 0, JFloat 1, JFloat 0, JFloat 0],
      [JFloat 0, JFloat 0, JFloat 1, JFloat 0], [JFloat 0, JFloat 0, JFloat 0, JFloat 1]]"

definition example_meta :: meta where
  "example_meta =
     \<lparr>depthSize = Some (256, 192), colorSize = Some (1920, 1440), K_depth = None,
      K_color = Some [[JFloat (2901 / 2), JFloat 0, JFloat 960],
                      [JFloat 0, JFloat (2901 / 2), JFloat 720],
                      [JFloat 0, JFloat 0, JFloat 1]],
      T_wc = Some identity_pose, depthScale = None\<rparr>"

definition integer_K_meta :: meta where
  "integer_K_meta =
     \<lparr>depthSize = Some (256, 192), colorSize = Some (1920, 1440), K_depth = None,
      K_color = Some [[JInt 1000, JInt 0, JInt 640],
                      [JInt 0, JInt 1000, JInt 350],
                      [JInt 0, JInt 0, JInt 1]],
      T_wc = Some identity_pose, depthScale = None\<rparr>"

definition depth_K_meta :: meta where
  "depth_K_meta =
     example_meta\<lparr>K_depth := Some [[JFloat (1937 / 10), JInt 0, JFloat (1279 / 10)],
                                   [JInt 0, JFloat (1937 / 10), JFloat (959 / 10)],
                                   [JInt 0, JInt 0, JInt 1]]\<rparr>"

definition example_frame :: frame_files where
  "example_frame =
     \<lparr>rgb_exists = True, depth_exists = True, meta_exists = True, meta_json = Some example_meta,
      depth_png = (\<lambda>s. Some [1000, 1001]), color_jpg = Some [7, 8, 9]\<rparr>"

definition malformed_depth_frame :: frame_files where
  "malformed_depth_frame = example_frame\<lparr>depth_png := (\<lambda>s. None)\<rparr>"

text \<open>
  Collaborators that invert the identity pose, never fail to integrate, extract an empty
  mesh from a volume without frames and one triangle otherwise, and report failure when
  asked to write an empty mesh; and the same with a failing extraction.
\<close>

definition example_externals :: externals where
  "example_externals =
     \<lparr>linalg_inv = (\<lambda>a. if a = np_array identity_pose then Some (map (map float_of) identity_pose) else None),
      create_from_color_and_depth = (\<lambda>c d. Some (c, d)),
      integrate_ok = (\<lambda>v rgbd intr T. True),
      extract_triangle_mesh = (\<lambda>v. Some (if integrated v = [] then \<lparr>vertices = [], triangles = []\<rparr>
          else \<lparr>vertices = [(0, 0, 1), (1, 0, 1), (0, 1, 1)], triangles = [(0, 1, 2)]\<rparr>)),
      mkdir_ok = (\<lambda>p. True),
      write_triangle_mesh = (\<lambda>p m. Some (vertices m \<noteq> []))\<rparr>"

definition failing_preview :: externals where
  "failing_preview = example_externals\<lparr>extract_triangle_mesh := (\<lambda>v. None)\<rparr>"

text \<open>
  A chunk of ten frames whose fourth frame has a depth file that cannot be loaded, and
  variants of it: no frame listed, the directory missing, one frame listed.
\<close>

definition ten_frame_ids :: "string list" where
  "ten_frame_ids =
     [''f01'', ''f02'', ''f03'', ''f04'', ''f05'', ''f06'', ''f07'', ''f08'', ''f09'', ''f10'']"

definition ten_frame_chunk :: chunk where
  "ten_frame_chunk =
     \<lparr>chunkPath = ''chunks/0001'', chunk_exists = True,
      index_json = IndexParsed (IndexList ten_frame_ids),
      files = (\<lambda>fid. if fid = ''f04'' then malformed_depth_frame else example_frame)\<rparr>"

definition empty_chunk :: chunk where
  "empty_chunk = ten_frame_chunk\<lparr>index_json := IndexParsed (IndexDict None)\<rparr>"

definition missing_chunk :: chunk where
  "missing_chunk = ten_frame_chunk\<lparr>chunk_exists := False\<rparr>"

definition one_frame_chunk :: chunk where
  "one_frame_chunk = ten_frame_chunk\<lparr>index_json := IndexParsed (IndexList [''f01''])\<rparr>"

definition empty_world :: world where
  "empty_world = \<lparr>sessions = Map.empty, trace = []\<rparr>"

definition after_first_chunk :: world where
  "after_first_chunk = snd (ingest_chunk example_externals ten_frame_chunk ''tok'' empty_world)"

definition initialized_world :: world where
  "initialized_world = snd (init_session ''tok'' empty_world)"

section \<open>The frame loop\<close>

lemma bind_result_raise [simp]: "bind_result (Inl err) rest = Inl err"
  by (simp add: bind_result_def)

lemma bind_result_value [simp]: "bind_result (Inr v) rest = rest v"
  by (simp add: bind_result_def)

lemma integrate_frame_ok:
  assumes "integrate_frame ext s rgbd intr T = (Inr u, s', ev)"
  shows "frame_count s' = frame_count s + 1 \<and> chunk_count s' = chunk_count s \<and> token s' = token s
    \<and> integrated_frames s' = integrated_frames s @ [(rgbd, intr, T)] \<and> tsdf_volume s' \<noteq> None
    \<and> set ev \<subseteq> {Log INFO ''TSDF volume initialized''}"
  using assms
  by (auto simp: integrate_frame_def initialize_tsdf_def integrated_frames_def
      split: if_splits option.splits prod.splits)

lemma integrate_frame_fail:
  assumes "integrate_frame ext s rgbd intr T = (Inl e, s', ev)"
  shows "frame_count s' = frame_count s \<and> chunk_count s' = chunk_count s \<and> token s' = token s
    \<and> integrated_frames s' = integrated_frames s"
  using assms
  by (auto simp: integrate_frame_def initialize_tsdf_def integrated_frames_def
      split: if_splits option.splits prod.splits)

lemma integrate_frame_robust:
  assumes "\<forall>v. integrate_ok ext v rgbd intr T"
  shows "\<exists>s' ev. integrate_frame ext s rgbd intr T = (Inr (), s', ev)"
  using assms
  by (auto simp: integrate_frame_def initialize_tsdf_def split: option.splits)

lemma process_frame_ok:
  assumes "process_frame ext f s = (True, s', ev)"
  shows "frame_count s' = frame_count s + 1 \<and> chunk_count s' = chunk_count s \<and> token s' = token s
    \<and> (\<exists>x. integrated_frames s' = integrated_frames s @ [x])"
  using assms integrate_frame_ok
  by (fastforce simp: process_frame_def split: if_splits prod.splits sum.splits)

lemma process_frame_fail:
  assumes "process_frame ext f s = (False, s', ev)"
  shows "frame_count s' = frame_count s \<and> chunk_count s' = chunk_count s \<and> token s' = token s
    \<and> integrated_frames s' = integrated_frames s"
  using assms integrate_frame_fail
  by (fastforce simp: process_frame_def split: if_splits prod.splits sum.splits)

lemma process_frame_good:
  assumes "rgb_exists f" "depth_exists f" "meta_exists f"
    and "fst (prepare_frame ext f) = Inr (rgbd, intr, T)"
    and "\<forall>v. integrate_ok ext v rgbd intr T"
  shows "\<exists>s' ev. process_frame ext f s = (True, s', ev) \<and> integrated_frames s' = integrated_frames s @ [(rgbd, intr, T)]"
proof -
  obtain ev0 where p: "prepare_frame ext f = (Inr (rgbd, intr, T), ev0)"
    using assms(4) by (cases "prepare_frame ext f") auto
  obtain s' ev where i: "integrate_frame ext s rgbd intr T = (Inr (), s', ev)"
    using integrate_frame_robust [OF assms(5)] by blast
  from integrate_frame_ok [OF i] have "integrated_frames s' = integrated_frames s @ [(rgbd, intr, T)]"
    by simp
  with p i assms(1-3) show ?thesis
    by (simp add: process_frame_def)
qed

lemma process_frames_counts:
  assumes "process_frames ext fs ids (p, fl, s, evs) = (p', fl', s', evs')"
  shows "p \<le> p' \<and> fl \<le> fl' \<and> p' + fl' = p + fl + int (length ids)
     \<and> frame_count s' = frame_count s + (p' - p)
     \<and> int (length (integrated_frames s')) = int (length (integrated_frames s)) + (p' - p)
     \<and> chunk_count s' = chunk_count s \<and> token s' = token s
     \<and> (\<exists>new. integrated_frames s' = integrated_frames s @ new)"
  using assms
proof (induction ids arbitrary: p fl s evs)
  case Nil
  then show ?case by simp
next
  case (Cons fid ids)
  obtain ok s1 ev where step: "process_frame ext (fs fid) s = (ok, s1, ev)"
    by (cases "process_frame ext (fs fid) s") auto
  show ?case
  proof (cases ok)
    case True
    with Cons.prems step
    have rest: "process_frames ext fs ids (p + 1, fl, s1, evs @ ev) = (p', fl', s', evs')"
      by simp
    from step True have "process_frame ext (fs fid) s = (True, s1, ev)" by simp
    from process_frame_ok [OF this] obtain x where
      s1: "frame_count s1 = frame_count s + 1" "chunk_count s1 = chunk_count s" "token s1 = token s"
          "integrated_frames s1 = integrated_frames s @ [x]"
      by blast
    from Cons.IH [OF rest] s1 show ?thesis by auto
  next
    case False
    with Cons.prems step
    have rest: "process_frames ext fs ids (p, fl + 1, s1, evs @ ev) = (p', fl', s', evs')"
      by simp
    from step False have "process_frame ext (fs fid) s = (False, s1, ev)" by simp
    from process_frame_fail [OF this] have
      s1: "frame_count s1 = frame_count s" "chunk_count s1 = chunk_count s" "token s1 = token s"
          "integrated_frames s1 = integrated_frames s"
      by blast+
    from Cons.IH [OF rest] s1 show ?thesis by auto
  qed
qed

lemma process_frames_isolated:
  assumes "process_frames ext fs ids (p, fl, s, evs) = (p', fl', s', evs')"
    and "fid \<in> set ids"
    and "rgb_exists (fs fid)" "depth_exists (fs fid)" "meta_exists (fs fid)"
    and "fst (prepare_frame ext (fs fid)) = Inr (rgbd, intr, T)"
    and "\<forall>v. integrate_ok ext v rgbd intr T"
  shows "(rgbd, intr, T) \<in> set (integrated_frames s')"
  using assms(1,2)
proof (induction ids arbitrary: p fl s evs)
  case Nil
  then show ?case by simp
next
  case (Cons a ids)
  obtain ok s1 ev where step: "process_frame ext (fs a) s = (ok, s1, ev)"
    by (cases "process_frame ext (fs a) s") auto
  let ?acc = "(if ok then p + 1 else p, if ok then fl else fl + 1, s1, evs @ ev)"
  from Cons.prems(1) step
  have rest: "process_frames ext fs ids ?acc = (p', fl', s', evs')"
    by simp
  show ?case
  proof (cases "fid = a")
    case True
    from process_frame_good [OF assms(3-7), of s] step True
    have "(rgbd, intr, T) \<in> set (integrated_frames s1)" by auto
    moreover from process_frames_counts [OF rest]
    obtain new where "integrated_frames s' = integrated_frames s1 @ new"
      by blast
    ultimately show ?thesis by simp
  next
    case False
    with Cons.prems(2) have "fid \<in> set ids" by simp
    from Cons.IH [OF rest this] show ?thesis .
  qed
qed

lemma get_session_eq:
  "get_session tok w =
     (session_of w tok,
      w\<lparr>sessions := (sessions w)(tok \<mapsto> session_of w tok),
        trace := trace w @ (if sessions w tok = None
           then [Acquire SessionsLock, Log INFO ''Created new session for token'', Release SessionsLock]
           else [Acquire SessionsLock, Release SessionsLock])\<rparr>)"
  by (cases "sessions w tok") (auto simp: get_session_def session_of_def emit_def fun_upd_idem)

lemma ingest_chunk_nonempty:
  assumes "chunk_exists ch" "index_json ch = IndexParsed d" "frame_ids_of d = Inr ids" "ids \<noteq> []"
    and "process_frames ext (files ch) ids (0, 0, session_of w tok, []) = (p, fl, s1, evs)"
  shows "fst (ingest_chunk ext ch tok w) =
           Inr [(''status'', JStr ''ok''), (''token'', JStr tok), (''frames_processed'', JNum p),
                (''frames_failed'', JNum fl), (''total_frames'', JNum (frame_count s1))]"
    and "sessions (snd (ingest_chunk ext ch tok w)) =
           (sessions w)(tok \<mapsto> s1\<lparr>chunk_count := chunk_count s1 + 1\<rparr>)"
    and "new_events w (snd (ingest_chunk ext ch tok w)) =
           (if sessions w tok = None
            then [Acquire SessionsLock, Log INFO ''Created new session for token'', Release SessionsLock]
            else [Acquire SessionsLock, Release SessionsLock])
           @ [Log INFO ''Processing chunk'', Acquire (SessionLock tok)] @ evs
           @ [Log INFO ''Chunk processed''] @ preview ext tok (s1\<lparr>chunk_count := chunk_count s1 + 1\<rparr>)
           @ [Release (SessionLock tok)]"
  using assms by (simp_all add: ingest_chunk_def get_session_eq new_events_def)

text \<open>
  Claim C1, amended to chunks that list at least one frame. For a chunk whose index
  lists \<open>N \<ge> 1\<close> frames, the call answers with the normal body: \<open>frames_processed\<close> is
  the number of frames the volume gained, \<open>frames_processed + frames_failed = N\<close>, and
  \<open>total_frames\<close> is the session's count before the call plus \<open>frames_processed\<close>, which
  is also the session's count after the call. No failure aborts the loop: every listed
  frame whose files exist, whose inputs load and whose integration Open3D accepts is in
  the volume afterwards, whatever happened to the other frames.
\<close>

theorem ingest_chunk_isolates_frame_failures:
  assumes "chunk_exists ch" "index_json ch = IndexParsed d" "frame_ids_of d = Inr ids" "ids \<noteq> []"
  shows "\<exists>p fl s'.
     fst (ingest_chunk ext ch tok w) =
       Inr [(''status'', JStr ''ok''), (''token'', JStr tok), (''frames_processed'', JNum p),
            (''frames_failed'', JNum fl),
            (''total_frames'', JNum (frame_count (session_of w tok) + p))]
     \<and> sessions (snd (ingest_chunk ext ch tok w)) tok = Some s'
     \<and> 0 \<le> p \<and> 0 \<le> fl \<and> p + fl = int (length ids)
     \<and> int (length (integrated_frames s')) = int (length (integrated_frames (session_of w tok))) + p
     \<and> frame_count s' = frame_count (session_of w tok) + p
     \<and> (\<forall>fid \<in> set ids. \<forall>rgbd intr T.
           rgb_exists (files ch fid) \<and> depth_exists (files ch fid) \<and> meta_exists (files ch fid)
           \<and> fst (prepare_frame ext (files ch fid)) = Inr (rgbd, intr, T)
           \<and> (\<forall>v. integrate_ok ext v rgbd intr T)
           \<longrightarrow> (rgbd, intr, T) \<in> set (integrated_frames s'))"
proof -
  obtain p fl s1 evs where
    loop: "process_frames ext (files ch) ids (0, 0, session_of w tok, []) = (p, fl, s1, evs)"
    by (metis prod_cases4)
  let ?s' = "s1\<lparr>chunk_count := chunk_count s1 + 1\<rparr>"
  note counts = process_frames_counts [OF loop]
  have frames: "integrated_frames ?s' = integrated_frames s1"
    by (simp add: integrated_frames_def)
  have resp: "fst (ingest_chunk ext ch tok w) =
       Inr [(''status'', JStr ''ok''), (''token'', JStr tok), (''frames_processed'', JNum p),
            (''frames_failed'', JNum fl),
            (''total_frames'', JNum (frame_count (session_of w tok) + p))]"
    using ingest_chunk_nonempty(1) [OF assms loop] counts by simp
  have sess: "sessions (snd (ingest_chunk ext ch tok w)) tok = Some ?s'"
    using ingest_chunk_nonempty(2) [OF assms loop] by simp
  have iso: "\<forall>fid \<in> set ids. \<forall>rgbd intr T.
           rgb_exists (files ch fid) \<and> depth_exists (files ch fid) \<and> meta_exists (files ch fid)
           \<and> fst (prepare_frame ext (files ch fid)) = Inr (rgbd, intr, T)
           \<and> (\<forall>v. integrate_ok ext v rgbd intr T)
           \<longrightarrow> (rgbd, intr, T) \<in> set (integrated_frames ?s')"
    using process_frames_isolated [OF loop] frames by auto
  from counts have nums: "0 \<le> p" "0 \<le> fl" "p + fl = int (length ids)"
    "int (length (integrated_frames ?s')) = int (length (integrated_frames (session_of w tok))) + p"
    "frame_count ?s' = frame_count (session_of w tok) + p"
    using frames by auto
  from resp sess nums iso show ?thesis by blast
qed

text \<open>
  The spec's example: ten frames, the fourth with a malformed depth buffer, on a session
  that already holds nine frames.
\<close>

theorem ingest_chunk_isolates_frame_failures_witness:
  "chunk_exists ten_frame_chunk
   \<and> index_json ten_frame_chunk
       = IndexParsed (IndexList ten_frame_ids)
   \<and> frame_count (session_of after_first_chunk ''tok'') = 9
   \<and> fst (ingest_chunk example_externals ten_frame_chunk ''tok'' after_first_chunk) =
       Inr [(''status'', JStr ''ok''), (''token'', JStr ''tok''), (''frames_processed'', JNum 9),
            (''frames_failed'', JNum 1), (''total_frames'', JNum 18)]
   \<and> (\<exists>s'. sessions (snd (ingest_chunk example_externals ten_frame_chunk ''tok'' after_first_chunk)) ''tok''
              = Some s'
           \<and> frame_count s' = 18 \<and> length (integrated_frames s') = 18)"
proof -
  have h1: "chunk_exists ten_frame_chunk"
    and h2: "index_json ten_frame_chunk = IndexParsed (IndexList ten_frame_ids)"
    by (simp_all add: ten_frame_chunk_def)
  have h3: "frame_ids_of (IndexList ten_frame_ids) = Inr ten_frame_ids" by simp
  have h4: "ten_frame_ids \<noteq> []" by (simp add: ten_frame_ids_def)
  have before: "frame_count (session_of after_first_chunk ''tok'') = 9"
    by code_simp
  have before': "length (integrated_frames (session_of after_first_chunk ''tok'')) = 9"
    by code_simp
  have resp: "fst (ingest_chunk example_externals ten_frame_chunk ''tok'' after_first_chunk) =
       Inr [(''status'', JStr ''ok''), (''token'', JStr ''tok''), (''frames_processed'', JNum 9),
            (''frames_failed'', JNum 1), (''total_frames'', JNum 18)]"
    by code_simp
  from ingest_chunk_isolates_frame_failures [OF h1 h2 h3 h4, of example_externals "''tok''" after_first_chunk]
  obtain p fl s' where
    r: "fst (ingest_chunk example_externals ten_frame_chunk ''tok'' after_first_chunk) =
       Inr [(''status'', JStr ''ok''), (''token'', JStr ''tok''), (''frames_processed'', JNum p),
            (''frames_failed'', JNum fl),
            (''total_frames'', JNum (frame_count (session_of after_first_chunk ''tok'') + p))]"
    and s: "sessions (snd (ingest_chunk example_externals ten_frame_chunk ''tok'' after_first_chunk)) ''tok''
              = Some s'"
    and n: "int (length (integrated_frames s'))
              = int (length (integrated_frames (session_of after_first_chunk ''tok''))) + p"
    and c: "frame_count s' = frame_count (session_of after_first_chunk ''tok'') + p"
    by blast
  from r resp have p: "p = 9" by simp
  from n c p before before' have "frame_count s' = 18" "length (integrated_frames s') = 18"
    by simp_all
  with s h1 h2 before resp show ?thesis by blast
qed

text \<open>
  An index that lists no frame is answered by the early return, whose body has neither
  \<open>frames_failed\<close> nor \<open>total_frames\<close>.
\<close>

theorem empty_index_response_counterexample:
  "chunk_exists empty_chunk \<and> index_json empty_chunk = IndexParsed (IndexDict None)
   \<and> frame_ids_of (IndexDict None) = Inr []
   \<and> fst (ingest_chunk example_externals empty_chunk ''tok'' after_first_chunk) =
       Inr [(''status'', JStr ''ok''), (''frames_processed'', JNum 0),
            (''message'', JStr ''No frames to process'')]
   \<and> response_field (fst (ingest_chunk example_externals empty_chunk ''tok'' after_first_chunk)) ''frames_failed''
       = None
   \<and> response_field (fst (ingest_chunk example_externals empty_chunk ''tok'' after_first_chunk)) ''total_frames''
       = None"
  by code_simp

section \<open>Chunks without frames\<close>

text \<open>
  Claim C9. When the index lists no frame, the call answers
  \<open>{status: ok, frames_processed: 0, message}\<close>, a body without \<open>frames_failed\<close> and
  \<open>total_frames\<close>. The registry afterwards holds for the token exactly the session
  \<open>get_session\<close> returned: an existing session is untouched (same volume or none, same
  \<open>frame_count\<close> and \<open>chunk_count\<close>), an unknown token gets the fresh session. The
  only effects are the registry lock, the creation notice and one warning: the session
  lock is not acquired, no mesh is extracted or written.
\<close>

theorem empty_chunk_leaves_session_unchanged:
  assumes "chunk_exists ch" "index_json ch = IndexParsed d" "frame_ids_of d = Inr []"
  shows "fst (ingest_chunk ext ch tok w) =
           Inr [(''status'', JStr ''ok''), (''frames_processed'', JNum 0),
                (''message'', JStr ''No frames to process'')]
     \<and> response_field (fst (ingest_chunk ext ch tok w)) ''frames_failed'' = None
     \<and> response_field (fst (ingest_chunk ext ch tok w)) ''total_frames'' = None
     \<and> sessions (snd (ingest_chunk ext ch tok w)) = (sessions w)(tok \<mapsto> session_of w tok)
     \<and> (sessions w tok \<noteq> None \<longrightarrow> sessions (snd (ingest_chunk ext ch tok w)) = sessions w)
     \<and> (sessions w tok = None \<longrightarrow> sessions (snd (ingest_chunk ext ch tok w)) tok = Some (new_session tok))
     \<and> new_events w (snd (ingest_chunk ext ch tok w)) =
           (if sessions w tok = None
            then [Acquire SessionsLock, Log INFO ''Created new session for token'', Release SessionsLock]
            else [Acquire SessionsLock, Release SessionsLock])
           @ [Log WARNING ''No frames in chunk index'']
     \<and> (\<forall>t. Acquire (SessionLock t) \<notin> set (new_events w (snd (ingest_chunk ext ch tok w)))
           \<and> ExtractMesh t \<notin> set (new_events w (snd (ingest_chunk ext ch tok w)))
           \<and> WriteMesh t \<notin> set (new_events w (snd (ingest_chunk ext ch tok w))))"
  using assms
  by (auto simp: ingest_chunk_def get_session_eq new_events_def emit_def session_of_def fun_upd_idem
      response_field_def
      split: option.splits)

theorem empty_chunk_leaves_session_unchanged_witness:
  "chunk_exists empty_chunk \<and> index_json empty_chunk = IndexParsed (IndexDict None)
   \<and> frame_ids_of (IndexDict None) = Inr []
   \<and> (sessions after_first_chunk ''tok'' \<noteq> None)
   \<and> sessions (snd (ingest_chunk example_externals empty_chunk ''tok'' after_first_chunk))
       = sessions after_first_chunk
   \<and> new_events after_first_chunk (snd (ingest_chunk example_externals empty_chunk ''tok'' after_first_chunk))
       = [Acquire SessionsLock, Release SessionsLock, Log WARNING ''No frames in chunk index'']
   \<and> sessions (snd (ingest_chunk example_externals empty_chunk ''new'' after_first_chunk)) ''new''
       = Some (new_session ''new'')"
proof -
  have h1: "chunk_exists empty_chunk"
    and h2: "index_json empty_chunk = IndexParsed (IndexDict None)"
    by (simp_all add: empty_chunk_def ten_frame_chunk_def)
  have h3: "frame_ids_of (IndexDict None) = Inr []" by simp
  have known: "sessions after_first_chunk ''tok'' \<noteq> None" by code_simp
  have unknown: "sessions after_first_chunk ''new'' = None" by code_simp
  note old = empty_chunk_leaves_session_unchanged
    [OF h1 h2 h3, of example_externals "''tok''" after_first_chunk]
  note new = empty_chunk_leaves_session_unchanged
    [OF h1 h2 h3, of example_externals "''new''" after_first_chunk]
  from old known have a:
    "sessions (snd (ingest_chunk example_externals empty_chunk ''tok'' after_first_chunk))
       = sessions after_first_chunk"
    by blast
  from old known have b:
    "new_events after_first_chunk (snd (ingest_chunk example_externals empty_chunk ''tok'' after_first_chunk))
       = [Acquire SessionsLock, Release SessionsLock, Log WARNING ''No frames in chunk index'']"
    by simp
  from new unknown have c:
    "sessions (snd (ingest_chunk example_externals empty_chunk ''new'' after_first_chunk)) ''new''
       = Some (new_session ''new'')"
    by blast
  from h1 h2 h3 known a b c show ?thesis by blast
qed

section \<open>The preview after a chunk\<close>

lemma prepare_frame_same_fusion:
  assumes "same_fusion ext ext'"
  shows "prepare_frame ext' f = prepare_frame ext f"
proof -
  from assms have "linalg_inv ext' = linalg_inv ext"
    and "create_from_color_and_depth ext' = create_from_color_and_depth ext"
    by (simp_all add: same_fusion_def)
  then show ?thesis
    unfolding prepare_frame_def get_world_to_camera_transform_def by (simp only:)
qed

lemma integrate_frame_same_fusion:
  assumes "same_fusion ext ext'"
  shows "integrate_frame ext' s rgbd intr T = integrate_frame ext s rgbd intr T"
proof -
  from assms have "integrate_ok ext' = integrate_ok ext"
    by (simp add: same_fusion_def)
  then show ?thesis
    unfolding integrate_frame_def by (simp only:)
qed

lemma process_frame_same_fusion:
  assumes "same_fusion ext ext'"
  shows "process_frame ext' f s = process_frame ext f s"
  unfolding process_frame_def
  by (simp only: prepare_frame_same_fusion [OF assms] integrate_frame_same_fusion [OF assms])

lemma process_frames_same_fusion:
  assumes "same_fusion ext ext'"
  shows "process_frames ext' fs ids acc = process_frames ext fs ids acc"
proof (induction ids arbitrary: acc)
  case Nil
  show ?case by simp
next
  case (Cons a ids)
  obtain p fl s evs where acc: "acc = (p, fl, s, evs)" by (metis prod_cases4)
  show ?case
    unfolding acc using Cons.IH by (simp add: process_frame_same_fusion [OF assms] split: prod.splits)
qed

lemma ingest_chunk_same_fusion:
  assumes "same_fusion ext ext'"
  shows "fst (ingest_chunk ext' ch tok w) = fst (ingest_chunk ext ch tok w)"
    and "sessions (snd (ingest_chunk ext' ch tok w)) = sessions (snd (ingest_chunk ext ch tok w))"
  by (simp_all add: ingest_chunk_def process_frames_same_fusion [OF assms] get_session_eq
      internal_error_def emit_def
      split: index_file.splits sum.splits prod.splits)

text \<open>
  Claim C7. When the preview after a chunk raises (no volume, extraction, directory
  creation or writing fails), the call still answers with the normal body carrying the
  loop's two counters and the session's frame count, the session keeps the integrated
  frames and its advanced \<open>chunk_count\<close>, and the failure is logged as a warning. The
  answer and the registry are the same as with any collaborators that differ only in
  extraction and writing, in particular with ones whose preview succeeds.
\<close>

theorem preview_failure_keeps_chunk_result:
  assumes "chunk_exists ch" "index_json ch = IndexParsed d" "frame_ids_of d = Inr ids" "ids \<noteq> []"
    and "process_frames ext (files ch) ids (0, 0, session_of w tok, []) = (p, fl, s1, evs)"
    and "fst (extract_and_write ext tok (tsdf_volume s1)) = Inl e"
  shows "fst (ingest_chunk ext ch tok w) =
           Inr [(''status'', JStr ''ok''), (''token'', JStr tok), (''frames_processed'', JNum p),
                (''frames_failed'', JNum fl), (''total_frames'', JNum (frame_count s1))]
     \<and> sessions (snd (ingest_chunk ext ch tok w)) tok = Some (s1\<lparr>chunk_count := chunk_count s1 + 1\<rparr>)
     \<and> Log WARNING ''Failed to extract mesh after chunk''
          \<in> set (new_events w (snd (ingest_chunk ext ch tok w)))
     \<and> (\<forall>ext'. same_fusion ext ext' \<longrightarrow>
           fst (ingest_chunk ext' ch tok w) = fst (ingest_chunk ext ch tok w)
           \<and> sessions (snd (ingest_chunk ext' ch tok w)) = sessions (snd (ingest_chunk ext ch tok w)))"
proof -
  let ?s2 = "s1\<lparr>chunk_count := chunk_count s1 + 1\<rparr>"
  from assms(6) obtain ev where "extract_and_write ext tok (tsdf_volume ?s2) = (Inl e, ev)"
    by (cases "extract_and_write ext tok (tsdf_volume s1)") auto
  then have "Log WARNING ''Failed to extract mesh after chunk'' \<in> set (preview ext tok ?s2)"
    by (simp add: preview_def)
  then have warn: "Log WARNING ''Failed to extract mesh after chunk''
      \<in> set (new_events w (snd (ingest_chunk ext ch tok w)))"
    using ingest_chunk_nonempty(3) [OF assms(1-5)] by simp
  show ?thesis
    using ingest_chunk_nonempty(1,2) [OF assms(1-5)] warn ingest_chunk_same_fusion
    by simp
qed

theorem preview_failure_keeps_chunk_result_witness:
  "fst (extract_and_write failing_preview ''tok''
          (tsdf_volume (fst (snd (snd (process_frames failing_preview (files ten_frame_chunk)
              ten_frame_ids
              (0, 0, session_of empty_world ''tok'', []))))))) = Inl RuntimeError
   \<and> fst (ingest_chunk failing_preview ten_frame_chunk ''tok'' empty_world) =
        Inr [(''status'', JStr ''ok''), (''token'', JStr ''tok''), (''frames_processed'', JNum 9),
             (''frames_failed'', JNum 1), (''total_frames'', JNum 9)]
   \<and> Log WARNING ''Failed to extract mesh after chunk''
        \<in> set (new_events empty_world (snd (ingest_chunk failing_preview ten_frame_chunk ''tok'' empty_world)))
   \<and> fst (ingest_chunk example_externals ten_frame_chunk ''tok'' empty_world)
        = fst (ingest_chunk failing_preview ten_frame_chunk ''tok'' empty_world)
   \<and> sessions (snd (ingest_chunk example_externals ten_frame_chunk ''tok'' empty_world))
        = sessions (snd (ingest_chunk failing_preview ten_frame_chunk ''tok'' empty_world))"
proof -
  let ?loop = "process_frames failing_preview (files ten_frame_chunk) ten_frame_ids
                 (0, 0, session_of empty_world ''tok'', [])"
  have h1: "chunk_exists ten_frame_chunk"
    and h2: "index_json ten_frame_chunk = IndexParsed (IndexList ten_frame_ids)"
    by (simp_all add: ten_frame_chunk_def)
  have h3: "frame_ids_of (IndexList ten_frame_ids) = Inr ten_frame_ids" by simp
  have h4: "ten_frame_ids \<noteq> []" by (simp add: ten_frame_ids_def)
  have h5: "?loop = (fst ?loop, fst (snd ?loop), fst (snd (snd ?loop)), snd (snd (snd ?loop)))"
    by simp
  have h6: "fst (extract_and_write failing_preview ''tok'' (tsdf_volume (fst (snd (snd ?loop)))))
      = Inl RuntimeError"
    by code_simp
  have same: "same_fusion failing_preview example_externals"
    by (simp add: same_fusion_def failing_preview_def)
  have p: "fst ?loop = 9" and fl: "fst (snd ?loop) = 1"
    and total: "frame_count (fst (snd (snd ?loop))) = 9"
    by code_simp+
  note t = preview_failure_keeps_chunk_result [OF h1 h2 h3 h4 h5 h6]
  from t p fl total have a: "fst (ingest_chunk failing_preview ten_frame_chunk ''tok'' empty_world) =
        Inr [(''status'', JStr ''ok''), (''token'', JStr ''tok''), (''frames_processed'', JNum 9),
             (''frames_failed'', JNum 1), (''total_frames'', JNum 9)]"
    by simp
  from t same have b: "fst (ingest_chunk example_externals ten_frame_chunk ''tok'' empty_world)
        = fst (ingest_chunk failing_preview ten_frame_chunk ''tok'' empty_world)"
    and c: "sessions (snd (ingest_chunk example_externals ten_frame_chunk ''tok'' empty_world))
        = sessions (snd (ingest_chunk failing_preview ten_frame_chunk ''tok'' empty_world))"
    by blast+
  from t have d: "Log WARNING ''Failed to extract mesh after chunk''
        \<in> set (new_events empty_world (snd (ingest_chunk failing_preview ten_frame_chunk ''tok'' empty_world)))"
    by blast
  from h6 a b c d show ?thesis by blast
qed

section \<open>Finalize\<close>

lemma extract_and_write_called:
  "vol \<noteq> None \<Longrightarrow> ExtractMesh tok \<in> set (snd (extract_and_write ext tok vol))"
  by (auto simp: extract_and_write_def split: option.splits)

text \<open>
  Claim C2, amended. Without a volume (in particular for a token never seen before)
  \<open>finalize\<close> fails with status 400 and neither extracts nor writes a mesh. With a
  volume it calls the extraction; it returns the vertex count, the triangle count and the
  session's \<open>frame_count\<close> when extraction, directory creation and the write succeed,
  and fails with status 500 otherwise.
\<close>

theorem finalize_outcomes:
  "(tsdf_volume (session_of w tok) = None \<longrightarrow>
       fst (finalize ext tok w) =
         Inl (HTTPException 400 ''TSDF volume not initialized. Process chunks first.'')
       \<and> ExtractMesh tok \<notin> set (new_events w (snd (finalize ext tok w)))
       \<and> WriteMesh (output_path tok) \<notin> set (new_events w (snd (finalize ext tok w))))
   \<and> (sessions w tok = None \<longrightarrow> tsdf_volume (session_of w tok) = None)
   \<and> (\<forall>v. tsdf_volume (session_of w tok) = Some v \<longrightarrow>
         ExtractMesh tok \<in> set (new_events w (snd (finalize ext tok w)))
         \<and> (\<forall>m. extract_triangle_mesh ext v = Some m \<and> mkdir_ok ext (output_dir tok)
                 \<and> write_triangle_mesh ext (output_path tok) m = Some True \<longrightarrow>
              fst (finalize ext tok w) =
                Inr [(''status'', JStr ''ok''), (''token'', JStr tok),
                     (''mesh_path'', JStr (output_path tok)),
                     (''vertices'', JNum (int (length (vertices m)))),
                     (''triangles'', JNum (int (length (triangles m)))),
                     (''total_frames'', JNum (frame_count (session_of w tok)))])
         \<and> (\<not> (\<exists>m. extract_triangle_mesh ext v = Some m \<and> mkdir_ok ext (output_dir tok)
                 \<and> write_triangle_mesh ext (output_path tok) m = Some True) \<longrightarrow>
              (\<exists>msg. fst (finalize ext tok w) = Inl (HTTPException 500 msg))))
   \<and> sessions (snd (finalize ext tok w)) = (sessions w)(tok \<mapsto> session_of w tok)"
proof -
  have a: "tsdf_volume (session_of w tok) = None \<longrightarrow>
       fst (finalize ext tok w) =
         Inl (HTTPException 400 ''TSDF volume not initialized. Process chunks first.'')
       \<and> ExtractMesh tok \<notin> set (new_events w (snd (finalize ext tok w)))
       \<and> WriteMesh (output_path tok) \<notin> set (new_events w (snd (finalize ext tok w)))"
    by (auto simp: finalize_def get_session_eq new_events_def emit_def)
  have b: "sessions w tok = None \<longrightarrow> tsdf_volume (session_of w tok) = None"
    by (simp add: session_of_def new_session_def)
  have c: "sessions (snd (finalize ext tok w)) = (sessions w)(tok \<mapsto> session_of w tok)"
    by (simp add: finalize_def get_session_eq emit_def split: prod.splits sum.splits)
  have d: "ExtractMesh tok \<in> set (new_events w (snd (finalize ext tok w)))"
    if "tsdf_volume (session_of w tok) = Some v" for v
    using that extract_and_write_called [of "Some v" tok ext]
    by (auto simp: finalize_def get_session_eq new_events_def emit_def split: prod.splits sum.splits)
  have e: "fst (finalize ext tok w) =
                Inr [(''status'', JStr ''ok''), (''token'', JStr tok),
                     (''mesh_path'', JStr (output_path tok)),
                     (''vertices'', JNum (int (length (vertices m)))),
                     (''triangles'', JNum (int (length (triangles m)))),
                     (''total_frames'', JNum (frame_count (session_of w tok)))]"
    if "tsdf_volume (session_of w tok) = Some v" "extract_triangle_mesh ext v = Some m"
      "mkdir_ok ext (output_dir tok)" "write_triangle_mesh ext (output_path tok) m = Some True"
    for v m
    using that by (simp add: finalize_def get_session_eq extract_and_write_def)
  have f: "\<exists>msg. fst (finalize ext tok w) = Inl (HTTPException 500 msg)"
    if "tsdf_volume (session_of w tok) = Some v"
      "\<not> (\<exists>m. extract_triangle_mesh ext v = Some m \<and> mkdir_ok ext (output_dir tok)
                 \<and> write_triangle_mesh ext (output_path tok) m = Some True)"
    for v
    using that
    by (auto simp: finalize_def get_session_eq extract_and_write_def split: option.splits)
  from a b c d e f show ?thesis by blast
qed

theorem finalize_outcomes_witness:
  "sessions empty_world ''new'' = None
   \<and> fst (finalize example_externals ''new'' empty_world) =
        Inl (HTTPException 400 ''TSDF volume not initialized. Process chunks first.'')
   \<and> ExtractMesh ''new'' \<notin> set (new_events empty_world (snd (finalize example_externals ''new'' empty_world)))
   \<and> tsdf_volume (session_of after_first_chunk ''tok'') \<noteq> None
   \<and> fst (finalize example_externals ''tok'' after_first_chunk) =
        Inr [(''status'', JStr ''ok''), (''token'', JStr ''tok''),
             (''mesh_path'', JStr ''laptop/server/data/tok/mesh/latest.ply''),
             (''vertices'', JNum 3), (''triangles'', JNum 1), (''total_frames'', JNum 9)]
   \<and> ExtractMesh ''tok''
        \<in> set (new_events after_first_chunk (snd (finalize example_externals ''tok'' after_first_chunk)))"
proof -
  let ?m = "\<lparr>vertices = [(0, 0, 1), (1, 0, 1), (0, 1, 1)], triangles = [(0, 1, 2)]\<rparr> :: mesh"
  have unknown: "sessions empty_world ''new'' = None"
    by (simp add: empty_world_def)
  have novol: "tsdf_volume (session_of empty_world ''new'') = None"
    by (simp add: empty_world_def session_of_def new_session_def)
  have vol: "tsdf_volume (session_of after_first_chunk ''tok'') \<noteq> None"
    by code_simp
  then obtain v where v: "tsdf_volume (session_of after_first_chunk ''tok'') = Some v"
    by blast
  have "extract_triangle_mesh example_externals (the (tsdf_volume (session_of after_first_chunk ''tok'')))
          = Some ?m"
    by code_simp
  with v have ex: "extract_triangle_mesh example_externals v = Some ?m" by simp
  have dir: "mkdir_ok example_externals (output_dir ''tok'')"
    and wr: "write_triangle_mesh example_externals (output_path ''tok'') ?m = Some True"
    by (simp_all add: example_externals_def)
  have count: "frame_count (session_of after_first_chunk ''tok'') = 9"
    by code_simp
  have path: "output_path ''tok'' = ''laptop/server/data/tok/mesh/latest.ply''"
    by (simp add: output_path_def output_dir_def)
  note fresh = finalize_outcomes [of empty_world "''new''" example_externals]
  note ready = finalize_outcomes [of after_first_chunk "''tok''" example_externals]
  from fresh novol have a: "fst (finalize example_externals ''new'' empty_world) =
        Inl (HTTPException 400 ''TSDF volume not initialized. Process chunks first.'')"
    and b: "ExtractMesh ''new'' \<notin> set (new_events empty_world (snd (finalize example_externals ''new'' empty_world)))"
    by blast+
  from ready v have c: "ExtractMesh ''tok''
        \<in> set (new_events after_first_chunk (snd (finalize example_externals ''tok'' after_first_chunk)))"
    by blast
  from ready v ex dir wr have "fst (finalize example_externals ''tok'' after_first_chunk) =
        Inr [(''status'', JStr ''ok''), (''token'', JStr ''tok''),
             (''mesh_path'', JStr (output_path ''tok'')),
             (''vertices'', JNum (int (length (vertices ?m)))),
             (''triangles'', JNum (int (length (triangles ?m)))),
             (''total_frames'', JNum (frame_count (session_of after_first_chunk ''tok'')))]"
    by blast
  then have d: "fst (finalize example_externals ''tok'' after_first_chunk) =
        Inr [(''status'', JStr ''ok''), (''token'', JStr ''tok''),
             (''mesh_path'', JStr ''laptop/server/data/tok/mesh/latest.ply''),
             (''vertices'', JNum 3), (''triangles'', JNum 1), (''total_frames'', JNum 9)]"
    by (simp add: count path)
  from unknown a b vol d c show ?thesis by blast
qed

text \<open>
  A session that was initialised and never given a frame has a volume; its mesh is empty,
  the write reports failure, and \<open>finalize\<close> answers 500 instead of the counts.
\<close>

theorem finalize_empty_volume_counterexample:
  "tsdf_volume (session_of initialized_world ''tok'') \<noteq> None
   \<and> fst (finalize example_externals ''tok'' initialized_world) =
        Inl (HTTPException 500 ''Failed to write PLY file'')"
  by code_simp

section \<open>The registry\<close>

lemma init_session_keeps:
  "sessions w t \<noteq> None \<Longrightarrow> sessions (snd (init_session tok' w)) t \<noteq> None"
  by (simp add: init_session_def get_session_eq split: prod.splits)

lemma ingest_chunk_keeps:
  "sessions w t \<noteq> None \<Longrightarrow> sessions (snd (ingest_chunk ext ch tok' w)) t \<noteq> None"
  by (simp add: ingest_chunk_def get_session_eq internal_error_def emit_def
      split: index_file.splits sum.splits prod.splits)

lemma finalize_keeps:
  "sessions w t \<noteq> None \<Longrightarrow> sessions (snd (finalize ext tok' w)) t \<noteq> None"
  by (simp add: finalize_def get_session_eq emit_def split: prod.splits sum.splits)

lemma handle_keeps:
  "sessions w t \<noteq> None \<Longrightarrow> sessions (snd (handle ext r w)) t \<noteq> None"
  by (cases r) (simp_all add: init_session_keeps ingest_chunk_keeps finalize_keeps)

lemma serve_keeps:
  "sessions w t \<noteq> None \<Longrightarrow> sessions (serve ext rs w) t \<noteq> None"
proof (induction rs arbitrary: w)
  case Nil
  then show ?case by simp
next
  case (Cons r rs)
  from handle_keeps [OF Cons.prems] have "sessions (snd (handle ext r w)) t \<noteq> None" .
  from Cons.IH [OF this] show ?case by simp
qed

text \<open>
  Claim C10, amended. For a token without a session, \<open>finalize\<close> fails with status 400
  and leaves a fresh session for the token in the registry, where it stays through every
  later sequence of requests. \<open>init_session\<close>, and \<open>ingest_chunk\<close> on a chunk path
  that exists, register the token as well; \<open>ingest_chunk\<close> on a chunk path that does not
  exist answers 404 before the registry is consulted and leaves the world as it was.
\<close>

theorem failed_finalize_registers_session:
  assumes "sessions w tok = None"
  shows "fst (finalize ext tok w) =
           Inl (HTTPException 400 ''TSDF volume not initialized. Process chunks first.'')
     \<and> sessions (snd (finalize ext tok w)) = (sessions w)(tok \<mapsto> new_session tok)
     \<and> (\<forall>rs. sessions (serve ext rs (snd (finalize ext tok w))) tok \<noteq> None)
     \<and> sessions (snd (init_session tok w)) tok \<noteq> None
     \<and> (chunk_exists ch \<longrightarrow> sessions (snd (ingest_chunk ext ch tok w)) tok \<noteq> None)
     \<and> (\<not> chunk_exists ch \<longrightarrow>
          fst (ingest_chunk ext ch tok w)
            = Inl (HTTPException 404 (''Chunk path does not exist: '' @ chunkPath ch))
          \<and> snd (ingest_chunk ext ch tok w) = w)"
proof -
  have fresh: "session_of w tok = new_session tok"
    using assms by (simp add: session_of_def)
  have a: "fst (finalize ext tok w) =
           Inl (HTTPException 400 ''TSDF volume not initialized. Process chunks first.'')"
    by (simp add: finalize_def get_session_eq fresh new_session_def)
  have b: "sessions (snd (finalize ext tok w)) = (sessions w)(tok \<mapsto> new_session tok)"
    by (simp add: finalize_def get_session_eq fresh new_session_def emit_def)
  then have "sessions (snd (finalize ext tok w)) tok \<noteq> None" by simp
  then have c: "\<forall>rs. sessions (serve ext rs (snd (finalize ext tok w))) tok \<noteq> None"
    by (simp add: serve_keeps)
  have d: "sessions (snd (init_session tok w)) tok \<noteq> None"
    by (simp add: init_session_def get_session_eq split: prod.splits)
  have e: "chunk_exists ch \<longrightarrow> sessions (snd (ingest_chunk ext ch tok w)) tok \<noteq> None"
    by (simp add: ingest_chunk_def get_session_eq internal_error_def emit_def
        split: index_file.splits sum.splits prod.splits)
  have f: "\<not> chunk_exists ch \<longrightarrow>
          fst (ingest_chunk ext ch tok w)
            = Inl (HTTPException 404 (''Chunk path does not exist: '' @ chunkPath ch))
          \<and> snd (ingest_chunk ext ch tok w) = w"
    by (simp add: ingest_chunk_def)
  from a b c d e f show ?thesis by blast
qed

theorem failed_finalize_registers_session_witness:
  "sessions empty_world ''tok'' = None
   \<and> fst (finalize example_externals ''tok'' empty_world) =
        Inl (HTTPException 400 ''TSDF volume not initialized. Process chunks first.'')
   \<and> sessions (snd (finalize example_externals ''tok'' empty_world)) ''tok'' = Some (new_session ''tok'')
   \<and> sessions (serve example_externals [Finalize ''other'', IngestChunk empty_chunk ''other'']
                  (snd (finalize example_externals ''tok'' empty_world))) ''tok'' \<noteq> None
   \<and> \<not> chunk_exists missing_chunk
   \<and> snd (ingest_chunk example_externals missing_chunk ''tok'' empty_world) = empty_world"
proof -
  have h: "sessions empty_world ''tok'' = None"
    by (simp add: empty_world_def)
  have gone: "\<not> chunk_exists missing_chunk"
    by (simp add: missing_chunk_def)
  note t = failed_finalize_registers_session [OF h, of example_externals missing_chunk]
  from t have "sessions (snd (finalize example_externals ''tok'' empty_world))
      = (sessions empty_world)(''tok'' \<mapsto> new_session ''tok'')"
    by blast
  then have a: "sessions (snd (finalize example_externals ''tok'' empty_world)) ''tok''
      = Some (new_session ''tok'')"
    by simp
  from t gone h a show ?thesis by blast
qed

text \<open>Not every operation starts with get-or-create: a missing chunk path registers nothing.\<close>

theorem missing_chunk_registers_nothing_counterexample:
  "sessions empty_world ''tok'' = None
   \<and> fst (ingest_chunk example_externals missing_chunk ''tok'' empty_world) =
        Inl (HTTPException 404 ''Chunk path does not exist: chunks/0001'')
   \<and> sessions (snd (ingest_chunk example_externals missing_chunk ''tok'' empty_world)) ''tok'' = None"
  by code_simp

section \<open>The camera intrinsic\<close>

lemma prepare_frame_quiet:
  assumes "prepare_frame ext f = (Inr x, ev)"
  shows "ev = []"
  using assms
  by (auto simp: prepare_frame_def bind_logged_def load_meta_json_def load_depth_image_def
      load_color_image_def quiet_def split: option.splits sum.splits prod.splits)

lemma prepare_frame_intrinsic:
  assumes "prepare_frame ext f = (Inr (rgbd, intr, T), ev)"
  shows "\<exists>m. meta_json f = Some m \<and> create_intrinsic_from_meta m True = Inr intr"
  using assms
  by (auto simp: prepare_frame_def bind_logged_def load_meta_json_def load_depth_image_def
      load_color_image_def quiet_def split: option.splits sum.splits prod.splits)

text \<open>
  Claim C6, amended. The fallback is silent. When a frame whose metadata has a depth size
  and no depth intrinsic is integrated, its intrinsic is the scaled color intrinsic, and
  the frame writes no log record except, possibly, the info record of the volume's
  creation: no warning-level record is emitted.
\<close>

theorem fallback_intrinsic_is_silent:
  assumes "meta_json f = Some m" "depthSize m = Some (w, h)" "K_depth m = None"
    and "process_frame ext f s = (True, s', ev)"
  shows "(\<exists>rgbd intr T.
            bind_result (scale_K_color m w h) (pinhole w h) = Inr intr
            \<and> integrated_frames s' = integrated_frames s @ [(rgbd, intr, T)])
     \<and> set ev \<subseteq> {Log INFO ''TSDF volume initialized''}
     \<and> (\<forall>msg. Log WARNING msg \<notin> set ev)"
proof -
  from assms(4) obtain rgbd intr T ev0 u ev1 where
    prep: "prepare_frame ext f = (Inr (rgbd, intr, T), ev0)"
    and integ: "integrate_frame ext s rgbd intr T = (Inr u, s', ev1)"
    and ev: "ev = ev0 @ ev1"
    by (auto simp: process_frame_def split: if_splits prod.splits sum.splits)
  from prepare_frame_quiet [OF prep] have ev0: "ev0 = []" .
  from prepare_frame_intrinsic [OF prep] assms(1)
  have "create_intrinsic_from_meta m True = Inr intr" by auto
  with assms(2,3) have scaled: "bind_result (scale_K_color m w h) (pinhole w h) = Inr intr"
    by (simp add: create_intrinsic_from_meta_def)
  note i = integrate_frame_ok [OF integ]
  from i ev ev0 have sub: "set ev \<subseteq> {Log INFO ''TSDF volume initialized''}" by simp
  then have "\<forall>msg. Log WARNING msg \<notin> set ev" by auto
  with scaled i sub show ?thesis by blast
qed

theorem fallback_intrinsic_is_silent_witness:
  "meta_json example_frame = Some example_meta
   \<and> depthSize example_meta = Some (256, 192) \<and> K_depth example_meta = None
   \<and> fst (process_frame example_externals example_frame (new_session ''tok''))
   \<and> set (snd (snd (process_frame example_externals example_frame (new_session ''tok''))))
        \<subseteq> {Log INFO ''TSDF volume initialized''}"
proof -
  let ?r = "process_frame example_externals example_frame (new_session ''tok'')"
  have h1: "meta_json example_frame = Some example_meta"
    by (simp add: example_frame_def)
  have h2: "depthSize example_meta = Some (256, 192)" and h3: "K_depth example_meta = None"
    by (simp_all add: example_meta_def)
  have ok: "fst ?r" by code_simp
  then have h4: "?r = (True, fst (snd ?r), snd (snd ?r))"
    by (cases ?r) simp
  from fallback_intrinsic_is_silent [OF h1 h2 h3 h4] h1 h2 h3 ok show ?thesis by blast
qed

text \<open>
  A whole chunk of one frame integrated with the fallback intrinsic: the complete trace
  of the call contains no warning.
\<close>

theorem fallback_intrinsic_no_warning_counterexample:
  "K_depth example_meta = None
   \<and> create_intrinsic_from_meta example_meta True =
        Inr \<lparr>width = 256, height = 192, fx = 967 / 5, fy = 967 / 5, cx = 128, cy = 96\<rparr>
   \<and> fst (ingest_chunk example_externals one_frame_chunk ''tok'' empty_world) =
        Inr [(''status'', JStr ''ok''), (''token'', JStr ''tok''), (''frames_processed'', JNum 1),
             (''frames_failed'', JNum 0), (''total_frames'', JNum 1)]
   \<and> trace (snd (ingest_chunk example_externals one_frame_chunk ''tok'' empty_world)) =
        [Acquire SessionsLock, Log INFO ''Created new session for token'', Release SessionsLock,
         Log INFO ''Processing chunk'', Acquire (SessionLock ''tok''),
         Log INFO ''TSDF volume initialized'', Log INFO ''Chunk processed'',
         ExtractMesh ''tok'', MakeDirs ''laptop/server/data/tok/mesh'',
         WriteMesh ''laptop/server/data/tok/mesh/latest.ply'',
         Log INFO ''Updated latest.ply after chunk'', Release (SessionLock ''tok'')]"
  by code_simp

text \<open>
  Claim C5 at a color intrinsic whose nine entries are JSON integers: the array has an
  integer dtype, each scaled entry is cast back to it, and the intrinsic is
  \<open>(133, 133, 85, 46)\<close> where the scaling gives \<open>(400/3, 400/3, 256/3, 140/3)\<close>.
\<close>

theorem integer_K_color_is_truncated:
  "create_intrinsic_from_meta integer_K_meta True =
     Inr \<lparr>width = 256, height = 192, fx = 133, fy = 133, cx = 85, cy = 46\<rparr>"
  by code_simp

lemma three_entries:
  assumes "length r = 3"
  shows "\<exists>x y z. r = [x, y, z]"
  using assms by (auto simp: numeral_3_eq_3 length_Suc_conv)

lemma rows3:
  assumes "length kc = 3" "list_all (\<lambda>r. length r = 3) kc"
  shows "\<exists>a0 a1 a2 b0 b1 b2 c0 c1 c2. kc = [[a0, a1, a2], [b0, b1, b2], [c0, c1, c2]]"
proof -
  note three = three_entries
  from three [OF assms(1)] obtain r0 r1 r2 where kc: "kc = [r0, r1, r2]" by blast
  with assms(2) have "length r0 = 3" "length r1 = 3" "length r2 = 3" by simp_all
  with kc three [of r0] three [of r1] three [of r2] show ?thesis by blast
qed

text \<open>
  With a 3x3 color intrinsic that has at least one float entry, a depth size and no depth
  intrinsic, \<open>fx\<close> and \<open>cx\<close> are multiplied by \<open>depth_width / color_width\<close> and
  \<open>fy\<close> and \<open>cy\<close> by \<open>depth_height / color_height\<close>.
\<close>

theorem float_K_color_is_scaled:
  assumes "depthSize m = Some (w, h)" "K_depth m = None" "K_color m = Some kc"
    and "colorSize m = Some (cw, ch)" "cw \<noteq> 0" "ch \<noteq> 0"
    and "length kc = 3" "list_all (\<lambda>r. length r = 3) kc" "\<not> list_all (list_all is_int) kc"
  shows "create_intrinsic_from_meta m True =
     Inr \<lparr>width = w, height = h,
          fx = float_of (kc ! 0 ! 0) * (of_int w / of_int cw),
          fy = float_of (kc ! 1 ! 1) * (of_int h / of_int ch),
          cx = float_of (kc ! 0 ! 2) * (of_int w / of_int cw),
          cy = float_of (kc ! 1 ! 2) * (of_int h / of_int ch)\<rparr>"
proof -
  from rows3 [OF assms(7,8)] obtain a0 a1 a2 b0 b1 b2 c0 c1 c2 where
    kc: "kc = [[a0, a1, a2], [b0, b1, b2], [c0, c1, c2]]" by blast
  from assms(9) have arr: "np_array [[a0, a1, a2], [b0, b1, b2], [c0, c1, c2]] =
      FloatArray [[float_of a0, float_of a1, float_of a2], [float_of b0, float_of b1, float_of b2],
                  [float_of c0, float_of c1, float_of c2]]"
    unfolding kc by (simp add: np_array_def)
  show ?thesis
    using assms(1-6)
    by (simp add: create_intrinsic_from_meta_def scale_K_color_def lookup_key_def true_div_def
        arr kc in_range_def pinhole_def)
qed

theorem float_K_color_is_scaled_witness:
  "create_intrinsic_from_meta example_meta True =
     Inr \<lparr>width = 256, height = 192, fx = 967 / 5, fy = 967 / 5, cx = 128, cy = 96\<rparr>"
proof -
  let ?kc = "[[JFloat (2901 / 2), JFloat 0, JFloat 960], [JFloat 0, JFloat (2901 / 2), JFloat 720],
              [JFloat 0, JFloat 0, JFloat 1]]"
  have h: "depthSize example_meta = Some (256, 192)" "K_depth example_meta = None"
    "K_color example_meta = Some ?kc" "colorSize example_meta = Some (1920, 1440)"
    by (simp_all add: example_meta_def)
  have g: "(1920::int) \<noteq> 0" "(1440::int) \<noteq> 0" "length ?kc = 3"
    "list_all (\<lambda>r. length r = 3) ?kc" "\<not> list_all (list_all is_int) ?kc"
    by simp_all
  from float_K_color_is_scaled [OF h g] show ?thesis by simp
qed

text \<open>With a depth size and an explicit 3x3 depth intrinsic, that intrinsic is used unscaled.\<close>

theorem explicit_K_depth_is_unscaled:
  assumes "depthSize m = Some (w, h)" "K_depth m = Some kd"
    and "length kd = 3" "list_all (\<lambda>r. length r = 3) kd"
  shows "create_intrinsic_from_meta m True =
     Inr \<lparr>width = w, height = h,
          fx = float_of (kd ! 0 ! 0), fy = float_of (kd ! 1 ! 1),
          cx = float_of (kd ! 0 ! 2), cy = float_of (kd ! 1 ! 2)\<rparr>"
proof -
  from rows3 [OF assms(3,4)] obtain a0 a1 a2 b0 b1 b2 c0 c1 c2 where
    kd: "kd = [[a0, a1, a2], [b0, b1, b2], [c0, c1, c2]]" by blast
  have conv: "is_int x \<Longrightarrow> of_int (int_of x) = float_of x" for x
    by (cases x) simp_all
  show ?thesis
  proof (cases "list_all (list_all is_int) kd")
    case True
    then show ?thesis
      using assms(1,2)
      by (simp add: create_intrinsic_from_meta_def np_array_def kd in_range_def pinhole_def conv)
  next
    case False
    then show ?thesis
      using assms(1,2)
      by (auto simp add: create_intrinsic_from_meta_def np_array_def kd in_range_def pinhole_def conv)
  qed
qed

theorem explicit_K_depth_is_unscaled_witness:
  "create_intrinsic_from_meta depth_K_meta True =
     Inr \<lparr>width = 256, height = 192, fx = 1937 / 10, fy = 1937 / 10, cx = 1279 / 10, cy = 959 / 10\<rparr>"
proof -
  let ?kd = "[[JFloat (1937 / 10), JInt 0, JFloat (1279 / 10)], [JInt 0, JFloat (1937 / 10), JFloat (959 / 10)],
              [JInt 0, JInt 0, JInt 1]]"
  have h: "depthSize depth_K_meta = Some (256, 192)" "K_depth depth_K_meta = Some ?kd"
    by (simp_all add: depth_K_meta_def example_meta_def)
  have g: "length ?kd = 3" "list_all (\<lambda>r. length r = 3) ?kd"
    by simp_all
  from explicit_K_depth_is_unscaled [OF h g] show ?thesis by simp
qed

end
